theory Spec2Isabelle
  imports Main
begin

section \<open>Python values, exceptions and the outside world\<close>

text \<open>
  The script \<open>scripts/lora_part_merge.py\<close> is one function, \<open>merge_lora\<close>, that
  calls the modelling libraries (transformers, peft) and the standard library
  (\<open>os.path\<close>, \<open>shutil\<close>, \<open>print\<close>). The libraries are not part of the repository:
  their behaviour is a parameter of the model (the record \<open>libs\<close> below), so every
  theorem holds for whatever the libraries do.

  An exception is a value. \<open>AttributeError\<close> is the class the script raises itself;
  \<open>Exception cls msg\<close> is any other exception whose class derives from Python's
  \<open>Exception\<close>; \<open>BaseException cls msg\<close> is one that does not (KeyboardInterrupt,
  SystemExit, GeneratorExit), which \<open>except Exception\<close> does not catch.
\<close>

datatype exn =
    AttributeError string
  | Exception string string
  | BaseException string string

fun is_Exception :: "exn \<Rightarrow> bool" where
  "is_Exception (AttributeError _) = True"
| "is_Exception (Exception _ _) = True"
| "is_Exception (BaseException _ _) = False"

type_synonym path = string

text \<open>
  The file system maps a path to the contents of the regular file there. Directories
  are not modelled, and two spellings of one path are two keys.
\<close>

type_synonym filesystem = "path \<rightharpoonup> string"

text \<open>
  A Python object is its attribute dictionary. \<open>'m\<close> is the type of a submodule, opaque
  to the script.
\<close>

record 'm model =
  attrs :: "string \<rightharpoonup> 'm"

text \<open>The operations the script performs on the outside world, in the order performed.\<close>

datatype 'm action =
    Load_model path
  | Load_tokenizer path
  | Load_processor path
  | Get_submodule string
  | Load_adapter path
  | Merge_adapter
  | Set_submodule string
  | Save_model "'m model" path
  | Save_tokenizer path
  | Save_processor path
  | Copy_file path path

fun is_write :: "'m action \<Rightarrow> bool" where
  "is_write (Save_model _ _) = True"
| "is_write (Save_tokenizer _) = True"
| "is_write (Save_processor _) = True"
| "is_write (Copy_file _ _) = True"
| "is_write _ = False"

record 'm world =
  files :: filesystem
  stdout :: "string list"
  trace :: "'m action list"

text \<open>
  The libraries: \<open>'p\<close> is a PeftModel, \<open>'t\<close> a tokenizer, \<open>'r\<close> a processor. A loader
  reads the file system and returns an object or raises. A saver writes whatever files
  it writes (also when it raises part-way). \<open>copy_error\<close> is the operating system
  refusing a copy (permissions, same file, missing directory).
\<close>

record ('m, 'p, 't, 'r) libs =
  load_model :: "path \<Rightarrow> filesystem \<Rightarrow> exn + 'm model"
  load_tokenizer :: "path \<Rightarrow> filesystem \<Rightarrow> exn + 't"
  load_processor :: "path \<Rightarrow> filesystem \<Rightarrow> exn + 'r"
  load_adapter :: "'m \<Rightarrow> path \<Rightarrow> filesystem \<Rightarrow> exn + 'p"
  merge_adapter :: "'p \<Rightarrow> exn + 'm"
  save_model :: "'m model \<Rightarrow> path \<Rightarrow> filesystem \<Rightarrow> (exn + unit) \<times> filesystem"
  save_tokenizer :: "'t \<Rightarrow> path \<Rightarrow> filesystem \<Rightarrow> (exn + unit) \<times> filesystem"
  save_processor :: "'r \<Rightarrow> path \<Rightarrow> filesystem \<Rightarrow> (exn + unit) \<times> filesystem"
  copy_error :: "path \<Rightarrow> path \<Rightarrow> filesystem \<Rightarrow> exn option"

section \<open>Statements that may raise\<close>

text \<open>
  A statement takes the world and returns the new world with either a value (\<open>Inr\<close>)
  or the exception it raised (\<open>Inl\<close>). \<open>seq\<close> is Python's sequencing: an exception
  skips the rest. \<open>try_except_Exception\<close> is \<open>try: ... except Exception: ...\<close>.
\<close>

type_synonym ('a, 'm) stmt = "'m world \<Rightarrow> (exn + 'a) \<times> 'm world"

definition return :: "'a \<Rightarrow> ('a, 'm) stmt" where
  "return x = (\<lambda>s. (Inr x, s))"

definition raise :: "exn \<Rightarrow> ('a, 'm) stmt" where
  "raise e = (\<lambda>s. (Inl e, s))"

definition seq :: "('a, 'm) stmt \<Rightarrow> ('a \<Rightarrow> ('b, 'm) stmt) \<Rightarrow> ('b, 'm) stmt" where
  "seq m f = (\<lambda>s. case m s of (Inl e, s') \<Rightarrow> (Inl e, s') | (Inr x, s') \<Rightarrow> f x s')"

definition try_except_Exception :: "('a, 'm) stmt \<Rightarrow> ('a, 'm) stmt \<Rightarrow> ('a, 'm) stmt" where
  "try_except_Exception body handler =
     (\<lambda>s. case body s of
        (Inl e, s') \<Rightarrow> if is_Exception e then handler s' else (Inl e, s')
      | (Inr x, s') \<Rightarrow> (Inr x, s'))"

definition print :: "string \<Rightarrow> (unit, 'm) stmt" where
  "print line = (\<lambda>s. (Inr (), s\<lparr>stdout := stdout s @ [line]\<rparr>))"

definition perform :: "'m action \<Rightarrow> 'm world \<Rightarrow> 'm world" where
  "perform a s = s\<lparr>trace := trace s @ [a]\<rparr>"

section \<open>The library calls of the script\<close>

definition AutoModel_from_pretrained ::
  "('m, 'p, 't, 'r) libs \<Rightarrow> path \<Rightarrow> ('m model, 'm) stmt" where
  "AutoModel_from_pretrained L p =
     (\<lambda>s. (load_model L p (files s), perform (Load_model p) s))"

definition AutoTokenizer_from_pretrained ::
  "('m, 'p, 't, 'r) libs \<Rightarrow> path \<Rightarrow> ('t, 'm) stmt" where
  "AutoTokenizer_from_pretrained L p =
     (\<lambda>s. (load_tokenizer L p (files s), perform (Load_tokenizer p) s))"

definition AutoProcessor_from_pretrained ::
  "('m, 'p, 't, 'r) libs \<Rightarrow> path \<Rightarrow> ('r, 'm) stmt" where
  "AutoProcessor_from_pretrained L p =
     (\<lambda>s. (load_processor L p (files s), perform (Load_processor p) s))"

definition PeftModel_from_pretrained ::
  "('m, 'p, 't, 'r) libs \<Rightarrow> 'm \<Rightarrow> path \<Rightarrow> ('p, 'm) stmt" where
  "PeftModel_from_pretrained L base_submodule p =
     (\<lambda>s. (load_adapter L base_submodule p (files s), perform (Load_adapter p) s))"

definition merge_and_unload :: "('m, 'p, 't, 'r) libs \<Rightarrow> 'p \<Rightarrow> ('m, 'm) stmt" where
  "merge_and_unload L lora_model =
     (\<lambda>s. (merge_adapter L lora_model, perform Merge_adapter s))"

definition model_save_pretrained ::
  "('m, 'p, 't, 'r) libs \<Rightarrow> 'm model \<Rightarrow> path \<Rightarrow> (unit, 'm) stmt" where
  "model_save_pretrained L m p =
     (\<lambda>s. case save_model L m p (files s) of
        (r, fs') \<Rightarrow> (r, perform (Save_model m p) (s\<lparr>files := fs'\<rparr>)))"

definition tokenizer_save_pretrained ::
  "('m, 'p, 't, 'r) libs \<Rightarrow> 't \<Rightarrow> path \<Rightarrow> (unit, 'm) stmt" where
  "tokenizer_save_pretrained L t p =
     (\<lambda>s. case save_tokenizer L t p (files s) of
        (r, fs') \<Rightarrow> (r, perform (Save_tokenizer p) (s\<lparr>files := fs'\<rparr>)))"

definition processor_save_pretrained ::
  "('m, 'p, 't, 'r) libs \<Rightarrow> 'r \<Rightarrow> path \<Rightarrow> (unit, 'm) stmt" where
  "processor_save_pretrained L r p =
     (\<lambda>s. case save_processor L r p (files s) of
        (res, fs') \<Rightarrow> (res, perform (Save_processor p) (s\<lparr>files := fs'\<rparr>)))"

text \<open>
  \<open>hasattr\<close>, \<open>getattr\<close> and \<open>setattr\<close> on the model object. \<open>getattr\<close> of a missing
  name raises Python's own AttributeError; \<open>setattr\<close> rebinds one name.
\<close>

definition hasattr :: "'m model \<Rightarrow> string \<Rightarrow> bool" where
  "hasattr m name = (attrs m name \<noteq> None)"

definition getattr :: "'m model \<Rightarrow> string \<Rightarrow> ('m, 'm) stmt" where
  "getattr m name =
     (\<lambda>s. case attrs m name of
        None \<Rightarrow> (Inl (AttributeError (''object has no attribute '' @ name)), s)
      | Some v \<Rightarrow> (Inr v, perform (Get_submodule name) s))"

definition setattr :: "'m model \<Rightarrow> string \<Rightarrow> 'm \<Rightarrow> ('m model, 'm) stmt" where
  "setattr m name v =
     (\<lambda>s. (Inr (m\<lparr>attrs := (attrs m)(name \<mapsto> v)\<rparr>), perform (Set_submodule name) s))"

text \<open>
  The standard library: \<open>os.path.join\<close> of two components (POSIX: an absolute second
  component replaces the first), \<open>os.path.exists\<close>, and \<open>shutil.copy\<close>, which unless
  the operating system refuses writes the contents of the source file at the destination.
\<close>

definition os_path_join :: "path \<Rightarrow> path \<Rightarrow> path" where
  "os_path_join a b =
     (if b \<noteq> [] \<and> hd b = CHR ''/'' then b
      else if a = [] \<or> last a = CHR ''/'' then a @ b
      else a @ ''/'' @ b)"

definition os_path_exists :: "filesystem \<Rightarrow> path \<Rightarrow> bool" where
  "os_path_exists fs p = (fs p \<noteq> None)"

definition shutil_copy :: "('m, 'p, 't, 'r) libs \<Rightarrow> path \<Rightarrow> path \<Rightarrow> (unit, 'm) stmt" where
  "shutil_copy L src dst =
     (\<lambda>s. case copy_error L src dst (files s) of
        Some e \<Rightarrow> (Inl e, perform (Copy_file src dst) s)
      | None \<Rightarrow>
          (case files s src of
             None \<Rightarrow> (Inl (Exception ''FileNotFoundError'' src), perform (Copy_file src dst) s)
           | Some c \<Rightarrow>
               (Inr (), perform (Copy_file src dst) (s\<lparr>files := (files s)(dst \<mapsto> c)\<rparr>))))"

definition quoted :: "string \<Rightarrow> string" where
  "quoted x = CHR 0x27 # x @ [CHR 0x27]"

section \<open>merge_lora\<close>

text \<open>Lines 44 to 53: load the original model, the tokenizer and the processor.\<close>

definition load_all ::
  "('m, 'p, 't, 'r) libs \<Rightarrow> path \<Rightarrow> ('m model \<times> 't \<times> 'r option, 'm) stmt" where
  "load_all L base_model_path =
     seq (AutoModel_from_pretrained L base_model_path) (\<lambda>model.
     seq (AutoTokenizer_from_pretrained L base_model_path) (\<lambda>tokenizer.
     seq (try_except_Exception
            (seq (AutoProcessor_from_pretrained L base_model_path) (\<lambda>p. return (Some p)))
            (seq (print ''Processor configuration not found, skipping processor load.'')
               (\<lambda>_. return None))) (\<lambda>processor.
     seq (print ''Successfully loaded the original model, tokenizer, and processor (if available).'') (\<lambda>_.
     return (model, tokenizer, processor)))))"

text \<open>
  Lines 56 to 70: extract the submodule, load the LoRA weights onto it, merge them and
  put the merged submodule back into the model.
\<close>

definition merge_submodule ::
  "('m, 'p, 't, 'r) libs \<Rightarrow> 'm model \<Rightarrow> path \<Rightarrow> string \<Rightarrow> ('m model, 'm) stmt" where
  "merge_submodule L model lora_checkpoint_path submodule_name =
     seq (if \<not> hasattr model submodule_name
          then raise (AttributeError (''The model does not have a submodule named ''
                 @ quoted submodule_name @ ''.''))
          else return ()) (\<lambda>_.
     seq (getattr model submodule_name) (\<lambda>base_submodule.
     seq (print (''Successfully extracted submodule: '' @ submodule_name @ ''.'')) (\<lambda>_.
     seq (PeftModel_from_pretrained L base_submodule lora_checkpoint_path) (\<lambda>lora_model.
     seq (print ''LoRA weights loaded successfully.'') (\<lambda>_.
     seq (merge_and_unload L lora_model) (\<lambda>merged_submodule.
     seq (print ''LoRA weights merged successfully.'') (\<lambda>_.
     setattr model submodule_name merged_submodule)))))))"

text \<open>Lines 73 to 78: save the model, the tokenizer and, if there is one, the processor.\<close>

definition save_all ::
  "('m, 'p, 't, 'r) libs \<Rightarrow> 'm model \<Rightarrow> 't \<Rightarrow> 'r option \<Rightarrow> path \<Rightarrow> (unit, 'm) stmt" where
  "save_all L model tokenizer processor save_path =
     seq (model_save_pretrained L model save_path) (\<lambda>_.
     seq (tokenizer_save_pretrained L tokenizer save_path) (\<lambda>_.
     seq (case processor of
            Some p \<Rightarrow> processor_save_pretrained L p save_path
          | None \<Rightarrow> return ()) (\<lambda>_.
     print (''Merged model and configuration saved to '' @ save_path @ ''.''))))"

text \<open>Lines 80 to 86: copy the extra file if it exists.\<close>

definition copy_extra_file ::
  "('m, 'p, 't, 'r) libs \<Rightarrow> path \<Rightarrow> string \<Rightarrow> path \<Rightarrow> (unit, 'm) stmt" where
  "copy_extra_file L base_model_path extra_file save_path =
     (let source_file = os_path_join base_model_path extra_file;
          target_file = os_path_join save_path extra_file
      in (\<lambda>s. if os_path_exists (files s) source_file
               then seq (shutil_copy L source_file target_file) (\<lambda>_.
                      print (''File '' @ quoted extra_file @ '' copied from ''
                        @ base_model_path @ '' to '' @ save_path @ ''.'')) s
               else print (''File '' @ quoted extra_file @ '' not found in ''
                        @ base_model_path @ '', skipping copy.'') s))"

text \<open>The whole function: the four blocks in the order of the source.\<close>

definition merge_lora ::
  "('m, 'p, 't, 'r) libs \<Rightarrow> path \<Rightarrow> path \<Rightarrow> string \<Rightarrow> string \<Rightarrow> path \<Rightarrow> (unit, 'm) stmt" where
  "merge_lora L base_model_path lora_checkpoint_path extra_file submodule_name save_path =
     seq (load_all L base_model_path) (\<lambda>(model, tokenizer, processor).
     seq (merge_submodule L model lora_checkpoint_path submodule_name) (\<lambda>model.
     seq (save_all L model tokenizer processor save_path) (\<lambda>_.
     copy_extra_file L base_model_path extra_file save_path)))"

text \<open>
  The signature's defaults: a caller may omit \<open>extra_file\<close>, \<open>submodule_name\<close> and
  \<open>save_path\<close> (\<open>None\<close> here), and Python binds the default.
\<close>

definition default_extra_file :: string where
  "default_extra_file = ''spk_dict.pt''"

definition default_submodule_name :: string where
  "default_submodule_name = ''thinker''"

definition default_save_path :: path where
  "default_save_path = ''./merged_model_checkpoint''"

definition bind_default :: "'a \<Rightarrow> 'a option \<Rightarrow> 'a" where
  "bind_default d arg = (case arg of None \<Rightarrow> d | Some v \<Rightarrow> v)"

definition merge_lora_call ::
  "('m, 'p, 't, 'r) libs \<Rightarrow> path \<Rightarrow> path \<Rightarrow> string option \<Rightarrow> string option \<Rightarrow> path option
     \<Rightarrow> (unit, 'm) stmt" where
  "merge_lora_call L base_model_path lora_checkpoint_path extra_file submodule_name save_path =
     merge_lora L base_model_path lora_checkpoint_path
       (bind_default default_extra_file extra_file)
       (bind_default default_submodule_name submodule_name)
       (bind_default default_save_path save_path)"

text \<open>The actions a run added to the trace.\<close>

definition new_actions :: "'m world \<Rightarrow> 'm world \<Rightarrow> 'm action list" where
  "new_actions s s' = drop (length (trace s)) (trace s')"

section \<open>A concrete library and world\<close>

text \<open>
  A small instance on which the theorems below are exercised: a model with two
  submodules, libraries that succeed, and a base directory holding the extra file.
\<close>

definition demo_model :: "string model" where
  "demo_model = \<lparr>attrs = [''thinker'' \<mapsto> ''W'', ''talker'' \<mapsto> ''V'']\<rparr>"

definition demo_libs :: "(string, string, string, string) libs" where
  "demo_libs =
     \<lparr>load_model = (\<lambda>p fs. Inr demo_model),
      load_tokenizer = (\<lambda>p fs. Inr ''tok''),
      load_processor = (\<lambda>p fs. Inr ''proc''),
      load_adapter = (\<lambda>m p fs. Inr (m @ ''+A'')),
      merge_adapter = (\<lambda>pm. Inr (pm @ ''!'')),
      save_model = (\<lambda>m p fs. (Inr (), fs(os_path_join p ''model'' \<mapsto>
                      (case attrs m ''thinker'' of Some w \<Rightarrow> w | None \<Rightarrow> [])))),
      save_tokenizer = (\<lambda>t p fs. (Inr (), fs(os_path_join p ''tokenizer'' \<mapsto> t))),
      save_processor = (\<lambda>r p fs. (Inr (), fs(os_path_join p ''processor'' \<mapsto> r))),
      copy_error = (\<lambda>src dst fs. if src = dst then Some (Exception ''SameFileError'' src)
                      else None)\<rparr>"


definition import_error_libs :: "(string, string, string, string) libs" where
  "import_error_libs =
     demo_libs\<lparr>load_processor := (\<lambda>p fs. Inl (Exception ''ImportError'' ''No module named torchvision''))\<rparr>"

definition interrupted_libs :: "(string, string, string, string) libs" where
  "interrupted_libs =
     demo_libs\<lparr>load_processor := (\<lambda>p fs. Inl (BaseException ''KeyboardInterrupt'' []))\<rparr>"

definition no_model_libs :: "(string, string, string, string) libs" where
  "no_model_libs =
     demo_libs\<lparr>load_model := (\<lambda>p fs. Inl (Exception ''OSError'' ''no config.json''))\<rparr>"

definition no_tokenizer_libs :: "(string, string, string, string) libs" where
  "no_tokenizer_libs =
     demo_libs\<lparr>load_tokenizer := (\<lambda>p fs. Inl (Exception ''OSError'' ''no tokenizer''))\<rparr>"

definition bad_adapter_libs :: "(string, string, string, string) libs" where
  "bad_adapter_libs =
     demo_libs\<lparr>load_adapter := (\<lambda>m p fs. Inl (Exception ''ValueError'' ''no adapter_config.json''))\<rparr>"

definition demo_world :: "string world" where
  "demo_world = \<lparr>files = [''base/spk_dict.pt'' \<mapsto> ''voices''], stdout = [], trace = []\<rparr>"

definition bare_world :: "string world" where
  "bare_world = \<lparr>files = Map.empty, stdout = [], trace = []\<rparr>"

section \<open>What each block computes\<close>

lemmas stmt_defs = return_def raise_def seq_def try_except_Exception_def print_def perform_def

lemma load_all_eq:
  "load_all L b s =
     (case load_model L b (files s) of
        Inl e \<Rightarrow> (Inl e, s\<lparr>trace := trace s @ [Load_model b]\<rparr>)
      | Inr m \<Rightarrow>
         (case load_tokenizer L b (files s) of
            Inl e \<Rightarrow> (Inl e, s\<lparr>trace := trace s @ [Load_model b, Load_tokenizer b]\<rparr>)
          | Inr t \<Rightarrow>
             (case load_processor L b (files s) of
                Inr p \<Rightarrow>
                  (Inr (m, t, Some p),
                   s\<lparr>stdout := stdout s @
                        [''Successfully loaded the original model, tokenizer, and processor (if available).''],
                     trace := trace s @ [Load_model b, Load_tokenizer b, Load_processor b]\<rparr>)
              | Inl e \<Rightarrow>
                  if is_Exception e
                  then (Inr (m, t, None),
                        s\<lparr>stdout := stdout s @
                            [''Processor configuration not found, skipping processor load.'',
                             ''Successfully loaded the original model, tokenizer, and processor (if available).''],
                          trace := trace s @ [Load_model b, Load_tokenizer b, Load_processor b]\<rparr>)
                  else (Inl e,
                        s\<lparr>trace := trace s @ [Load_model b, Load_tokenizer b, Load_processor b]\<rparr>))))"
  unfolding load_all_def AutoModel_from_pretrained_def AutoTokenizer_from_pretrained_def
    AutoProcessor_from_pretrained_def stmt_defs
  by (simp split: sum.splits)

lemma merge_submodule_eq:
  "merge_submodule L model l n s =
     (case attrs model n of
        None \<Rightarrow>
          (Inl (AttributeError (''The model does not have a submodule named '' @ quoted n @ ''.'')), s)
      | Some base \<Rightarrow>
         (case load_adapter L base l (files s) of
            Inl e \<Rightarrow>
              (Inl e,
               s\<lparr>stdout := stdout s @ [''Successfully extracted submodule: '' @ n @ ''.''],
                 trace := trace s @ [Get_submodule n, Load_adapter l]\<rparr>)
          | Inr lora_model \<Rightarrow>
             (case merge_adapter L lora_model of
                Inl e \<Rightarrow>
                  (Inl e,
                   s\<lparr>stdout := stdout s @ [''Successfully extracted submodule: '' @ n @ ''.'',
                        ''LoRA weights loaded successfully.''],
                     trace := trace s @ [Get_submodule n, Load_adapter l, Merge_adapter]\<rparr>)
              | Inr merged \<Rightarrow>
                  (Inr (model\<lparr>attrs := (attrs model)(n \<mapsto> merged)\<rparr>),
                   s\<lparr>stdout := stdout s @ [''Successfully extracted submodule: '' @ n @ ''.'',
                        ''LoRA weights loaded successfully.'', ''LoRA weights merged successfully.''],
                     trace := trace s @ [Get_submodule n, Load_adapter l, Merge_adapter,
                        Set_submodule n]\<rparr>))))"
  unfolding merge_submodule_def hasattr_def getattr_def setattr_def PeftModel_from_pretrained_def
    merge_and_unload_def stmt_defs
  by (simp split: sum.splits option.splits)

lemma save_all_eq:
  "save_all L model t pr sp s =
     (case save_model L model sp (files s) of
        (Inl e, fs1) \<Rightarrow> (Inl e, s\<lparr>files := fs1, trace := trace s @ [Save_model model sp]\<rparr>)
      | (Inr u, fs1) \<Rightarrow>
         (case save_tokenizer L t sp fs1 of
            (Inl e, fs2) \<Rightarrow>
              (Inl e, s\<lparr>files := fs2, trace := trace s @ [Save_model model sp, Save_tokenizer sp]\<rparr>)
          | (Inr u, fs2) \<Rightarrow>
             (case pr of
                None \<Rightarrow>
                  (Inr (),
                   s\<lparr>files := fs2,
                     stdout := stdout s @ [''Merged model and configuration saved to '' @ sp @ ''.''],
                     trace := trace s @ [Save_model model sp, Save_tokenizer sp]\<rparr>)
              | Some p \<Rightarrow>
                 (case save_processor L p sp fs2 of
                    (Inl e, fs3) \<Rightarrow>
                      (Inl e,
                       s\<lparr>files := fs3,
                         trace := trace s @ [Save_model model sp, Save_tokenizer sp, Save_processor sp]\<rparr>)
                  | (Inr u, fs3) \<Rightarrow>
                      (Inr (),
                       s\<lparr>files := fs3,
                         stdout := stdout s @ [''Merged model and configuration saved to '' @ sp @ ''.''],
                         trace := trace s @ [Save_model model sp, Save_tokenizer sp,
                            Save_processor sp]\<rparr>)))))"
  unfolding save_all_def model_save_pretrained_def tokenizer_save_pretrained_def
    processor_save_pretrained_def stmt_defs
  by (simp split: sum.splits option.splits prod.splits)

lemma copy_extra_file_eq:
  "copy_extra_file L b x sp s =
     (case files s (os_path_join b x) of
        None \<Rightarrow>
          (Inr (), s\<lparr>stdout := stdout s @
             [''File '' @ quoted x @ '' not found in '' @ b @ '', skipping copy.'']\<rparr>)
      | Some c \<Rightarrow>
         (case copy_error L (os_path_join b x) (os_path_join sp x) (files s) of
            Some e \<Rightarrow>
              (Inl e, s\<lparr>trace := trace s @ [Copy_file (os_path_join b x) (os_path_join sp x)]\<rparr>)
          | None \<Rightarrow>
              (Inr (),
               s\<lparr>files := (files s)(os_path_join sp x \<mapsto> c),
                 stdout := stdout s @
                   [''File '' @ quoted x @ '' copied from '' @ b @ '' to '' @ sp @ ''.''],
                 trace := trace s @ [Copy_file (os_path_join b x) (os_path_join sp x)]\<rparr>)))"
  unfolding copy_extra_file_def shutil_copy_def os_path_exists_def stmt_defs
  by (simp add: Let_def split: sum.splits option.splits)

lemma merge_lora_load_fails:
  "load_all L b s = (Inl e, s') \<Longrightarrow> merge_lora L b l x n sp s = (Inl e, s')"
  by (simp add: merge_lora_def seq_def)

lemma merge_lora_merge_fails:
  "load_all L b s = (Inr (m, t, pr), s1) \<Longrightarrow> merge_submodule L m l n s1 = (Inl e, s')
    \<Longrightarrow> merge_lora L b l x n sp s = (Inl e, s')"
  by (simp add: merge_lora_def seq_def)

lemma merge_lora_save_fails:
  "load_all L b s = (Inr (m, t, pr), s1) \<Longrightarrow> merge_submodule L m l n s1 = (Inr m', s2)
    \<Longrightarrow> save_all L m' t pr sp s2 = (Inl e, s') \<Longrightarrow> merge_lora L b l x n sp s = (Inl e, s')"
  by (simp add: merge_lora_def seq_def)

lemma merge_lora_run:
  "load_all L b s = (Inr (m, t, pr), s1) \<Longrightarrow> merge_submodule L m l n s1 = (Inr m', s2)
    \<Longrightarrow> save_all L m' t pr sp s2 = (Inr u, s3)
    \<Longrightarrow> merge_lora L b l x n sp s = copy_extra_file L b x sp s3"
  by (simp add: merge_lora_def seq_def)

lemma load_all_frame:
  assumes "load_all L b s = (r, s')"
  shows "files s' = files s \<and> (\<forall>a\<in>set (new_actions s s'). \<not> is_write a)"
proof -
  have "snd (load_all L b s) = s'" using assms by simp
  then show ?thesis
    unfolding load_all_eq
    by (cases "load_model L b (files s)"; cases "load_tokenizer L b (files s)";
        cases "load_processor L b (files s)") (auto simp: new_actions_def split: if_splits)
qed

lemma merge_submodule_frame:
  assumes "merge_submodule L m l n s = (r, s')"
  shows "files s' = files s \<and> (\<forall>a\<in>set (new_actions s s'). \<not> is_write a)"
proof -
  have "snd (merge_submodule L m l n s) = s'" using assms by simp
  then show ?thesis
    unfolding merge_submodule_eq
    by (auto simp: new_actions_def split: option.splits sum.splits)
qed


lemma load_all_Inr:
  assumes "load_all L b s = (Inr (m, t, pr), s1)"
  shows "load_model L b (files s) = Inr m \<and> load_tokenizer L b (files s) = Inr t
       \<and> (case load_processor L b (files s) of
             Inr p \<Rightarrow> pr = Some p
           | Inl e \<Rightarrow> is_Exception e \<and> pr = None)
       \<and> files s1 = files s
       \<and> stdout s1 = stdout s @
            (case pr of None \<Rightarrow> [''Processor configuration not found, skipping processor load.'']
                      | Some p \<Rightarrow> []) @
            [''Successfully loaded the original model, tokenizer, and processor (if available).'']
       \<and> trace s1 = trace s @ [Load_model b, Load_tokenizer b, Load_processor b]"
  using assms unfolding load_all_eq
  by (auto split: sum.splits if_splits)

lemma merge_submodule_Inr:
  assumes "merge_submodule L m l n s1 = (Inr m', s2)"
  shows "\<exists>base lora_model merged.
           attrs m n = Some base \<and> load_adapter L base l (files s1) = Inr lora_model
         \<and> merge_adapter L lora_model = Inr merged
         \<and> m' = m\<lparr>attrs := (attrs m)(n \<mapsto> merged)\<rparr>
         \<and> files s2 = files s1
         \<and> stdout s2 = stdout s1 @ [''Successfully extracted submodule: '' @ n @ ''.'',
              ''LoRA weights loaded successfully.'', ''LoRA weights merged successfully.'']
         \<and> trace s2 = trace s1 @ [Get_submodule n, Load_adapter l, Merge_adapter, Set_submodule n]"
  using assms unfolding merge_submodule_eq
  by (auto split: option.splits sum.splits)


section \<open>The claims\<close>

text \<open>
  C1. Once the base model is loaded (the loading block, lines 44 to 53, has completed:
  model and tokenizer loaded, and the processor either loaded or skipped), a
  \<open>submodule_name\<close> that is not an attribute of the model makes \<open>merge_lora\<close> raise
  AttributeError with the message \<open>The model does not have a submodule named '<name>'.\<close>,
  and nothing has happened but the three loads: no adapter loading, no merging, no
  saving, and the file system is as it was.
\<close>

theorem merge_lora_missing_submodule:
  assumes "load_model L b (files s) = Inr m"
    and "load_tokenizer L b (files s) = Inr t"
    and "\<forall>e. load_processor L b (files s) = Inl e \<longrightarrow> is_Exception e"
    and "\<not> hasattr m n"
  shows "fst (merge_lora L b l x n sp s) =
           Inl (AttributeError (''The model does not have a submodule named '' @ quoted n @ ''.''))
       \<and> files (snd (merge_lora L b l x n sp s)) = files s
       \<and> new_actions s (snd (merge_lora L b l x n sp s)) =
           [Load_model b, Load_tokenizer b, Load_processor b]"
proof -
  obtain pr s1 where la: "load_all L b s = (Inr (m, t, pr), s1)"
    and s1: "files s1 = files s" "trace s1 = trace s @ [Load_model b, Load_tokenizer b, Load_processor b]"
    using assms(1-3) unfolding load_all_eq by (cases "load_processor L b (files s)") auto
  have "attrs m n = None" using assms(4) by (simp add: hasattr_def)
  then have ms: "merge_submodule L m l n s1 =
      (Inl (AttributeError (''The model does not have a submodule named '' @ quoted n @ ''.'')), s1)"
    unfolding merge_submodule_eq by simp
  have "merge_lora L b l x n sp s =
      (Inl (AttributeError (''The model does not have a submodule named '' @ quoted n @ ''.'')), s1)"
    by (rule merge_lora_merge_fails [OF la ms])
  then show ?thesis using s1 by (simp add: new_actions_def)
qed

theorem merge_lora_missing_submodule_witness:
  "load_model demo_libs ''base'' (files demo_world) = Inr demo_model
   \<and> load_tokenizer demo_libs ''base'' (files demo_world) = Inr ''tok''
   \<and> \<not> hasattr demo_model ''nope''
   \<and> fst (merge_lora demo_libs ''base'' ''lora'' ''spk_dict.pt'' ''nope'' ''out'' demo_world) =
       Inl (AttributeError (''The model does not have a submodule named '' @ quoted ''nope'' @ ''.''))
   \<and> files (snd (merge_lora demo_libs ''base'' ''lora'' ''spk_dict.pt'' ''nope'' ''out'' demo_world))
       = files demo_world
   \<and> new_actions demo_world
        (snd (merge_lora demo_libs ''base'' ''lora'' ''spk_dict.pt'' ''nope'' ''out'' demo_world)) =
       [Load_model ''base'', Load_tokenizer ''base'', Load_processor ''base'']"
proof -
  have h1: "load_model demo_libs ''base'' (files demo_world) = Inr demo_model"
    by (simp add: demo_libs_def)
  have h2: "load_tokenizer demo_libs ''base'' (files demo_world) = Inr ''tok''"
    by (simp add: demo_libs_def)
  have h3: "\<forall>e. load_processor demo_libs ''base'' (files demo_world) = Inl e \<longrightarrow> is_Exception e"
    by (simp add: demo_libs_def)
  have h4: "\<not> hasattr demo_model ''nope''"
    by (simp add: hasattr_def demo_model_def)
  show ?thesis
    using h1 h2 h4 merge_lora_missing_submodule [OF h1 h2 h3 h4, of "''lora''" "''spk_dict.pt''" "''out''"]
    by simp
qed

text \<open>
  C2, as stated: absence of the processor configuration is the only processor-loading
  failure that is logged and ignored; any other is not swallowed. It fails: the handler
  is \<open>except Exception\<close>, which takes every exception deriving from \<open>Exception\<close>.
  Here the processor loader raises ImportError (a missing optional dependency, not a
  missing configuration), and the run still prints the "not found" message, goes on
  without a processor and completes.
\<close>

theorem processor_import_error_swallowed:
  "load_processor import_error_libs ''base'' (files bare_world) =
       Inl (Exception ''ImportError'' ''No module named torchvision'')
   \<and> fst (merge_lora import_error_libs ''base'' ''lora'' ''spk_dict.pt'' ''thinker'' ''out'' bare_world)
       = Inr ()
   \<and> hd (stdout (snd (merge_lora import_error_libs ''base'' ''lora'' ''spk_dict.pt'' ''thinker'' ''out''
         bare_world))) = ''Processor configuration not found, skipping processor load.''
   \<and> Save_processor ''out'' \<notin> set (trace (snd (merge_lora import_error_libs ''base'' ''lora''
         ''spk_dict.pt'' ''thinker'' ''out'' bare_world)))"
proof -
  have la: "load_all import_error_libs ''base'' bare_world =
      (Inr (demo_model, ''tok'', None),
       bare_world\<lparr>stdout := stdout bare_world @
           [''Processor configuration not found, skipping processor load.'',
            ''Successfully loaded the original model, tokenizer, and processor (if available).''],
         trace := trace bare_world @
           [Load_model ''base'', Load_tokenizer ''base'', Load_processor ''base'']\<rparr>)"
    unfolding load_all_eq by (simp add: import_error_libs_def demo_libs_def)
  show ?thesis
    unfolding merge_lora_def seq_def la
    by (simp add: merge_submodule_eq save_all_eq copy_extra_file_eq import_error_libs_def
        demo_libs_def demo_model_def bare_world_def os_path_join_def)
qed

text \<open>
  C2, amended: when model and tokenizer have loaded and the processor loader raises
  \<open>e\<close>, the failure is recoverable exactly when \<open>e\<close> derives from \<open>Exception\<close>,
  whatever its cause: then the "not found" message is printed, the processor is absent
  (\<open>None\<close>) and \<open>merge_lora\<close> goes on with the rest of its steps. An exception that does
  not derive from \<open>Exception\<close> (KeyboardInterrupt, SystemExit) is not swallowed:
  \<open>merge_lora\<close> raises it as it is, having done nothing but the three loads.
\<close>

theorem processor_failure_recovered_iff_Exception:
  assumes "load_model L b (files s) = Inr m"
    and "load_tokenizer L b (files s) = Inr t"
    and "load_processor L b (files s) = Inl e"
  shows "(is_Exception e \<longrightarrow>
            load_all L b s =
              (Inr (m, t, None),
               s\<lparr>stdout := stdout s @
                   [''Processor configuration not found, skipping processor load.'',
                    ''Successfully loaded the original model, tokenizer, and processor (if available).''],
                 trace := trace s @ [Load_model b, Load_tokenizer b, Load_processor b]\<rparr>)
          \<and> merge_lora L b l x n sp s =
              seq (merge_submodule L m l n) (\<lambda>model.
              seq (save_all L model t None sp) (\<lambda>_.
              copy_extra_file L b x sp))
                (s\<lparr>stdout := stdout s @
                   [''Processor configuration not found, skipping processor load.'',
                    ''Successfully loaded the original model, tokenizer, and processor (if available).''],
                 trace := trace s @ [Load_model b, Load_tokenizer b, Load_processor b]\<rparr>))
       \<and> (\<not> is_Exception e \<longrightarrow>
            merge_lora L b l x n sp s =
              (Inl e, s\<lparr>trace := trace s @ [Load_model b, Load_tokenizer b, Load_processor b]\<rparr>))"
proof (cases "is_Exception e")
  case True
  then have la: "load_all L b s =
      (Inr (m, t, None),
       s\<lparr>stdout := stdout s @
           [''Processor configuration not found, skipping processor load.'',
            ''Successfully loaded the original model, tokenizer, and processor (if available).''],
         trace := trace s @ [Load_model b, Load_tokenizer b, Load_processor b]\<rparr>)"
    unfolding load_all_eq using assms by simp
  show ?thesis using True la by (simp add: merge_lora_def seq_def)
next
  case False
  then have "load_all L b s =
      (Inl e, s\<lparr>trace := trace s @ [Load_model b, Load_tokenizer b, Load_processor b]\<rparr>)"
    unfolding load_all_eq using assms by simp
  then show ?thesis using False by (simp add: merge_lora_load_fails)
qed

theorem processor_failure_recovered_iff_Exception_witness:
  "load_processor import_error_libs ''base'' (files bare_world) =
       Inl (Exception ''ImportError'' ''No module named torchvision'')
   \<and> is_Exception (Exception ''ImportError'' ''No module named torchvision'')
   \<and> load_all import_error_libs ''base'' bare_world =
       (Inr (demo_model, ''tok'', None),
        bare_world\<lparr>stdout :=
            [''Processor configuration not found, skipping processor load.'',
             ''Successfully loaded the original model, tokenizer, and processor (if available).''],
          trace := [Load_model ''base'', Load_tokenizer ''base'', Load_processor ''base'']\<rparr>)
   \<and> load_processor interrupted_libs ''base'' (files bare_world) =
       Inl (BaseException ''KeyboardInterrupt'' [])
   \<and> \<not> is_Exception (BaseException ''KeyboardInterrupt'' [])
   \<and> merge_lora interrupted_libs ''base'' ''lora'' ''spk_dict.pt'' ''thinker'' ''out'' bare_world =
       (Inl (BaseException ''KeyboardInterrupt'' []),
        bare_world\<lparr>trace := [Load_model ''base'', Load_tokenizer ''base'', Load_processor ''base'']\<rparr>)"
proof -
  have a1: "load_model import_error_libs ''base'' (files bare_world) = Inr demo_model"
    by (simp add: import_error_libs_def demo_libs_def)
  have a2: "load_tokenizer import_error_libs ''base'' (files bare_world) = Inr ''tok''"
    by (simp add: import_error_libs_def demo_libs_def)
  have a3: "load_processor import_error_libs ''base'' (files bare_world) =
      Inl (Exception ''ImportError'' ''No module named torchvision'')"
    by (simp add: import_error_libs_def)
  have b1: "load_model interrupted_libs ''base'' (files bare_world) = Inr demo_model"
    by (simp add: interrupted_libs_def demo_libs_def)
  have b2: "load_tokenizer interrupted_libs ''base'' (files bare_world) = Inr ''tok''"
    by (simp add: interrupted_libs_def demo_libs_def)
  have b3: "load_processor interrupted_libs ''base'' (files bare_world) =
      Inl (BaseException ''KeyboardInterrupt'' [])"
    by (simp add: interrupted_libs_def)
  have tr: "trace bare_world = []" and so: "stdout bare_world = []"
    by (simp_all add: bare_world_def)
  show ?thesis
    using a3 b3
      processor_failure_recovered_iff_Exception [OF a1 a2 a3, of "''lora''" "''spk_dict.pt''" "''thinker''" "''out''"]
      processor_failure_recovered_iff_Exception [OF b1 b2 b3, of "''lora''" "''spk_dict.pt''" "''thinker''" "''out''"]
    by (simp add: tr so)
qed

text \<open>
  C3. A failure of base-model loading or of tokenizer loading is neither caught nor
  changed: \<open>merge_lora\<close> raises the very exception the library raised and stops there.
  Nothing is printed, nothing is written, and no later step is performed.
\<close>

theorem merge_lora_load_failure_propagates:
  "(load_model L b (files s) = Inl e \<longrightarrow>
      merge_lora L b l x n sp s = (Inl e, s\<lparr>trace := trace s @ [Load_model b]\<rparr>))
   \<and> (load_model L b (files s) = Inr m \<longrightarrow> load_tokenizer L b (files s) = Inl e \<longrightarrow>
      merge_lora L b l x n sp s =
        (Inl e, s\<lparr>trace := trace s @ [Load_model b, Load_tokenizer b]\<rparr>))"
proof (intro conjI impI)
  assume "load_model L b (files s) = Inl e"
  then have "load_all L b s = (Inl e, s\<lparr>trace := trace s @ [Load_model b]\<rparr>)"
    unfolding load_all_eq by simp
  then show "merge_lora L b l x n sp s = (Inl e, s\<lparr>trace := trace s @ [Load_model b]\<rparr>)"
    by (rule merge_lora_load_fails)
next
  assume "load_model L b (files s) = Inr m" and "load_tokenizer L b (files s) = Inl e"
  then have "load_all L b s = (Inl e, s\<lparr>trace := trace s @ [Load_model b, Load_tokenizer b]\<rparr>)"
    unfolding load_all_eq by simp
  then show "merge_lora L b l x n sp s =
      (Inl e, s\<lparr>trace := trace s @ [Load_model b, Load_tokenizer b]\<rparr>)"
    by (rule merge_lora_load_fails)
qed

theorem merge_lora_load_failure_propagates_witness:
  "load_model no_model_libs ''base'' (files demo_world) = Inl (Exception ''OSError'' ''no config.json'')
   \<and> merge_lora no_model_libs ''base'' ''lora'' ''spk_dict.pt'' ''thinker'' ''out'' demo_world =
       (Inl (Exception ''OSError'' ''no config.json''), demo_world\<lparr>trace := [Load_model ''base'']\<rparr>)
   \<and> load_model no_tokenizer_libs ''base'' (files demo_world) = Inr demo_model
   \<and> load_tokenizer no_tokenizer_libs ''base'' (files demo_world) =
       Inl (Exception ''OSError'' ''no tokenizer'')
   \<and> merge_lora no_tokenizer_libs ''base'' ''lora'' ''spk_dict.pt'' ''thinker'' ''out'' demo_world =
       (Inl (Exception ''OSError'' ''no tokenizer''),
        demo_world\<lparr>trace := [Load_model ''base'', Load_tokenizer ''base'']\<rparr>)"
proof -
  have a: "load_model no_model_libs ''base'' (files demo_world) = Inl (Exception ''OSError'' ''no config.json'')"
    by (simp add: no_model_libs_def)
  have b1: "load_model no_tokenizer_libs ''base'' (files demo_world) = Inr demo_model"
    by (simp add: no_tokenizer_libs_def demo_libs_def)
  have b2: "load_tokenizer no_tokenizer_libs ''base'' (files demo_world) =
      Inl (Exception ''OSError'' ''no tokenizer'')"
    by (simp add: no_tokenizer_libs_def)
  have tr: "trace demo_world = []" by (simp add: demo_world_def)
  show ?thesis
    using a b1 b2
      merge_lora_load_failure_propagates [of no_model_libs "''base''" demo_world
        "Exception ''OSError'' ''no config.json''" "''lora''" "''spk_dict.pt''" "''thinker''" "''out''" demo_model]
      merge_lora_load_failure_propagates [of no_tokenizer_libs "''base''" demo_world
        "Exception ''OSError'' ''no tokenizer''" "''lora''" "''spk_dict.pt''" "''thinker''" "''out''" demo_model]
    by (simp add: tr)
qed





text \<open>
  C6. The defaults of the signature are \<open>extra_file = "spk_dict.pt"\<close>,
  \<open>submodule_name = "thinker"\<close> and \<open>save_path = "./merged_model_checkpoint"\<close>: a call
  that omits one of these arguments is the call with that value, and a call that gives
  it uses what was given.
\<close>

theorem merge_lora_defaults:
  "merge_lora_call L b l extra_file submodule_name save_path =
     merge_lora L b l
       (case extra_file of None \<Rightarrow> ''spk_dict.pt'' | Some v \<Rightarrow> v)
       (case submodule_name of None \<Rightarrow> ''thinker'' | Some v \<Rightarrow> v)
       (case save_path of None \<Rightarrow> ''./merged_model_checkpoint'' | Some v \<Rightarrow> v)"
  by (simp add: merge_lora_call_def bind_default_def default_extra_file_def
      default_submodule_name_def default_save_path_def)

theorem merge_lora_defaults_witness:
  "merge_lora_call demo_libs ''base'' ''lora'' None None None demo_world =
     merge_lora demo_libs ''base'' ''lora'' ''spk_dict.pt'' ''thinker'' ''./merged_model_checkpoint''
       demo_world
   \<and> merge_lora_call demo_libs ''base'' ''lora'' None (Some ''talker'') None demo_world =
     merge_lora demo_libs ''base'' ''lora'' ''spk_dict.pt'' ''talker'' ''./merged_model_checkpoint''
       demo_world"
  using merge_lora_defaults [of demo_libs "''base''" "''lora''" None None None]
    merge_lora_defaults [of demo_libs "''base''" "''lora''" None "Some ''talker''" None]
  by simp


lemma demo_run:
  "merge_lora demo_libs ''base'' ''lora'' ''spk_dict.pt'' ''thinker'' ''out'' demo_world =
     (Inr (),
      \<lparr>files = [''base/spk_dict.pt'' \<mapsto> ''voices'', ''out/model'' \<mapsto> ''W+A!'',
                ''out/tokenizer'' \<mapsto> ''tok'', ''out/processor'' \<mapsto> ''proc'',
                ''out/spk_dict.pt'' \<mapsto> ''voices''],
       stdout =
         [''Successfully loaded the original model, tokenizer, and processor (if available).'',
          ''Successfully extracted submodule: thinker.'',
          ''LoRA weights loaded successfully.'',
          ''LoRA weights merged successfully.'',
          ''Merged model and configuration saved to out.'',
          ''File '' @ quoted ''spk_dict.pt'' @ '' copied from base to out.''],
       trace =
         [Load_model ''base'', Load_tokenizer ''base'', Load_processor ''base'',
          Get_submodule ''thinker'', Load_adapter ''lora'', Merge_adapter, Set_submodule ''thinker'',
          Save_model (demo_model\<lparr>attrs := (attrs demo_model)(''thinker'' \<mapsto> ''W+A!'')\<rparr>) ''out'',
          Save_tokenizer ''out'', Save_processor ''out'',
          Copy_file ''base/spk_dict.pt'' ''out/spk_dict.pt'']\<rparr>)"
proof -
  have la: "load_all demo_libs ''base'' demo_world =
      (Inr (demo_model, ''tok'', Some ''proc''),
       demo_world\<lparr>stdout :=
          [''Successfully loaded the original model, tokenizer, and processor (if available).''],
         trace := [Load_model ''base'', Load_tokenizer ''base'', Load_processor ''base'']\<rparr>)"
    unfolding load_all_eq by (simp add: demo_libs_def demo_world_def)
  show ?thesis
    unfolding merge_lora_def seq_def la
    by (simp add: merge_submodule_eq save_all_eq copy_extra_file_eq demo_libs_def demo_model_def
        demo_world_def os_path_join_def)
qed




text \<open>
  C9. If an error is raised before the save step, that is by the loading block (lines 44
  to 53) or by the block that extracts, adapts, merges and replaces the submodule (lines
  56 to 70, which includes the AttributeError for a missing submodule and the failures of
  adapter loading and merging), then \<open>merge_lora\<close> raises that error, the file system is
  exactly as before the call, and none of the actions of the run is a save or a copy.
\<close>

theorem merge_lora_error_before_save:
  assumes "load_all L b s = (Inl e, s')
         \<or> (\<exists>model tokenizer processor s1.
               load_all L b s = (Inr (model, tokenizer, processor), s1)
             \<and> merge_submodule L model l n s1 = (Inl e, s'))"
  shows "merge_lora L b l x n sp s = (Inl e, s')
       \<and> files s' = files s
       \<and> (\<forall>a \<in> set (new_actions s s'). \<not> is_write a)"
  using assms
proof
  assume la: "load_all L b s = (Inl e, s')"
  then show ?thesis
    using load_all_frame [OF la] by (simp add: merge_lora_load_fails)
next
  assume "\<exists>model tokenizer processor s1.
      load_all L b s = (Inr (model, tokenizer, processor), s1)
    \<and> merge_submodule L model l n s1 = (Inl e, s')"
  then obtain model tokenizer processor s1 where
    la: "load_all L b s = (Inr (model, tokenizer, processor), s1)" and
    ms: "merge_submodule L model l n s1 = (Inl e, s')"
    by blast
  have f1: "files s1 = files s"
    and t1: "trace s1 = trace s @ [Load_model b, Load_tokenizer b, Load_processor b]"
    using load_all_Inr [OF la] by simp_all
  have f2: "files s' = files s1" and w2: "\<forall>a \<in> set (new_actions s1 s'). \<not> is_write a"
    using merge_submodule_frame [OF ms] by simp_all
  have "new_actions s s' = [Load_model b, Load_tokenizer b, Load_processor b] @ new_actions s1 s'"
    using ms t1 unfolding merge_submodule_eq
    by (auto simp: new_actions_def split: option.splits sum.splits)
  then have "\<forall>a \<in> set (new_actions s s'). \<not> is_write a"
    using w2 by auto
  then show ?thesis
    using f1 f2 merge_lora_merge_fails [OF la ms] by simp
qed

theorem merge_lora_error_before_save_witness:
  "merge_lora bad_adapter_libs ''base'' ''lora'' ''spk_dict.pt'' ''thinker'' ''out'' demo_world =
     (Inl (Exception ''ValueError'' ''no adapter_config.json''),
      demo_world\<lparr>stdout :=
          [''Successfully loaded the original model, tokenizer, and processor (if available).'',
           ''Successfully extracted submodule: thinker.''],
        trace := [Load_model ''base'', Load_tokenizer ''base'', Load_processor ''base'',
           Get_submodule ''thinker'', Load_adapter ''lora'']\<rparr>)
   \<and> files (snd (merge_lora bad_adapter_libs ''base'' ''lora'' ''spk_dict.pt'' ''thinker'' ''out''
        demo_world)) = files demo_world
   \<and> merge_lora demo_libs ''base'' ''lora'' ''spk_dict.pt'' ''nope'' ''out'' demo_world =
     (Inl (AttributeError (''The model does not have a submodule named '' @ quoted ''nope'' @ ''.'')),
      demo_world\<lparr>stdout :=
          [''Successfully loaded the original model, tokenizer, and processor (if available).''],
        trace := [Load_model ''base'', Load_tokenizer ''base'', Load_processor ''base'']\<rparr>)"
proof -
  define s1 where "s1 = demo_world\<lparr>stdout :=
      [''Successfully loaded the original model, tokenizer, and processor (if available).''],
      trace := [Load_model ''base'', Load_tokenizer ''base'', Load_processor ''base'']\<rparr>"
  define s2 where "s2 = s1\<lparr>stdout := stdout s1 @ [''Successfully extracted submodule: thinker.''],
      trace := trace s1 @ [Get_submodule ''thinker'', Load_adapter ''lora'']\<rparr>"
  have la: "load_all bad_adapter_libs ''base'' demo_world =
      (Inr (demo_model, ''tok'', Some ''proc''), s1)"
    unfolding load_all_eq by (simp add: bad_adapter_libs_def demo_libs_def demo_world_def s1_def)
  have ms: "merge_submodule bad_adapter_libs demo_model ''lora'' ''thinker'' s1 =
      (Inl (Exception ''ValueError'' ''no adapter_config.json''), s2)"
    unfolding merge_submodule_eq
    by (simp add: bad_adapter_libs_def demo_libs_def demo_model_def s2_def)
  have h: "load_all bad_adapter_libs ''base'' demo_world =
        (Inl (Exception ''ValueError'' ''no adapter_config.json''), s2)
      \<or> (\<exists>model tokenizer processor s1.
            load_all bad_adapter_libs ''base'' demo_world = (Inr (model, tokenizer, processor), s1)
          \<and> merge_submodule bad_adapter_libs model ''lora'' ''thinker'' s1 =
              (Inl (Exception ''ValueError'' ''no adapter_config.json''), s2))"
    using la ms by blast
  have la': "load_all demo_libs ''base'' demo_world =
      (Inr (demo_model, ''tok'', Some ''proc''), s1)"
    unfolding load_all_eq by (simp add: demo_libs_def demo_world_def s1_def)
  have ms': "merge_submodule demo_libs demo_model ''lora'' ''nope'' s1 =
      (Inl (AttributeError (''The model does not have a submodule named '' @ quoted ''nope'' @ ''.'')), s1)"
    unfolding merge_submodule_eq by (simp add: demo_model_def)
  have h': "load_all demo_libs ''base'' demo_world =
        (Inl (AttributeError (''The model does not have a submodule named '' @ quoted ''nope'' @ ''.'')), s1)
      \<or> (\<exists>model tokenizer processor s1a.
            load_all demo_libs ''base'' demo_world = (Inr (model, tokenizer, processor), s1a)
          \<and> merge_submodule demo_libs model ''lora'' ''nope'' s1a =
              (Inl (AttributeError (''The model does not have a submodule named '' @ quoted ''nope'' @ ''.'')), s1))"
    using la' ms' by blast
  note th = merge_lora_error_before_save [OF h, of "''spk_dict.pt''" "''out''"]
  note th' = merge_lora_error_before_save [OF h', of "''spk_dict.pt''" "''out''"]
  show ?thesis
    using th th' by (simp add: s2_def s1_def demo_world_def)
qed

lemma load_all_actions:
  assumes "load_all L b s = (r, s')"
  shows "\<exists>as. trace s' = trace s @ as \<and> (\<forall>a\<in>set as. \<not> is_write a)"
proof -
  have "snd (load_all L b s) = s'" using assms by simp
  then show ?thesis
    unfolding load_all_eq
    by (cases "load_model L b (files s)"; cases "load_tokenizer L b (files s)";
        cases "load_processor L b (files s)") (auto split: if_splits)
qed

lemma merge_submodule_actions:
  assumes "merge_submodule L m l n s = (r, s')"
  shows "\<exists>as. trace s' = trace s @ as \<and> (\<forall>a\<in>set as. \<not> is_write a)"
proof -
  have "snd (merge_submodule L m l n s) = s'" using assms by simp
  then show ?thesis
    unfolding merge_submodule_eq
    by (auto split: option.splits sum.splits)
qed

lemma save_all_actions:
  assumes "save_all L m t pr sp s = (r, s')"
  shows "\<exists>as. trace s' = trace s @ as \<and> (\<forall>m' p. Save_model m' p \<in> set as \<longrightarrow> m' = m \<and> p = sp)"
proof -
  have "snd (save_all L m t pr sp s) = s'" using assms by simp
  then show ?thesis
    unfolding save_all_eq
    by (auto split: option.splits sum.splits prod.splits)
qed

lemma copy_extra_file_actions:
  assumes "copy_extra_file L b x sp s = (r, s')"
  shows "\<exists>as. trace s' = trace s @ as \<and> (\<forall>m' p. Save_model m' p \<notin> set as)"
proof -
  have "snd (copy_extra_file L b x sp s) = s'" using assms by simp
  then show ?thesis
    unfolding copy_extra_file_eq
    by (auto split: option.splits)
qed

lemma merge_lora_saved_model:
  assumes "Save_model m' p \<in> set (new_actions s (snd (merge_lora L b l x n sp s)))"
  shows "\<exists>m t pr s1 s2. load_all L b s = (Inr (m, t, pr), s1)
           \<and> merge_submodule L m l n s1 = (Inr m', s2) \<and> p = sp"
proof -
  obtain r1 s1 where la: "load_all L b s = (r1, s1)" by (cases "load_all L b s")
  obtain as1 where t1: "trace s1 = trace s @ as1" and w1: "\<forall>a\<in>set as1. \<not> is_write a"
    using load_all_actions [OF la] by blast
  show ?thesis
  proof (cases r1)
    case (Inl e)
    then have "merge_lora L b l x n sp s = (Inl e, s1)"
      using la by (simp add: merge_lora_load_fails)
    then have "Save_model m' p \<in> set as1"
      using assms t1 by (simp add: new_actions_def)
    then show ?thesis using w1 by fastforce
  next
    case (Inr v)
    obtain m t pr where v: "v = (m, t, pr)" by (cases v)
    have la': "load_all L b s = (Inr (m, t, pr), s1)" using la Inr v by simp
    obtain r2 s2 where ms: "merge_submodule L m l n s1 = (r2, s2)"
      by (cases "merge_submodule L m l n s1")
    obtain as2 where t2: "trace s2 = trace s1 @ as2" and w2: "\<forall>a\<in>set as2. \<not> is_write a"
      using merge_submodule_actions [OF ms] by blast
    show ?thesis
    proof (cases r2)
      case (Inl e)
      then have "merge_lora L b l x n sp s = (Inl e, s2)"
        using la' ms by (simp add: merge_lora_merge_fails)
      then have "Save_model m' p \<in> set (as1 @ as2)"
        using assms t1 t2 by (simp add: new_actions_def)
      then show ?thesis using w1 w2 by fastforce
    next
      case I2: (Inr m2)
      have ms': "merge_submodule L m l n s1 = (Inr m2, s2)" using ms I2 by simp
      obtain r3 s3 where sa: "save_all L m2 t pr sp s2 = (r3, s3)"
        by (cases "save_all L m2 t pr sp s2")
      obtain as3 where t3: "trace s3 = trace s2 @ as3"
        and w3: "\<forall>m' p. Save_model m' p \<in> set as3 \<longrightarrow> m' = m2 \<and> p = sp"
        using save_all_actions [OF sa] by blast
      have "\<exists>as4. trace (snd (merge_lora L b l x n sp s)) = trace s3 @ as4
          \<and> (\<forall>m' p. Save_model m' p \<notin> set as4)"
      proof (cases r3)
        case (Inl e)
        then have "merge_lora L b l x n sp s = (Inl e, s3)"
          using la' ms' sa by (simp add: merge_lora_save_fails)
        then show ?thesis by simp
      next
        case I3: (Inr u)
        have run: "merge_lora L b l x n sp s = copy_extra_file L b x sp s3"
          using la' ms' sa I3 by (simp add: merge_lora_run)
        obtain r4 s4 where cp: "copy_extra_file L b x sp s3 = (r4, s4)"
          by (cases "copy_extra_file L b x sp s3")
        show ?thesis
          using copy_extra_file_actions [OF cp] unfolding run cp by simp
      qed
      then obtain as4 where t4: "trace (snd (merge_lora L b l x n sp s)) = trace s3 @ as4"
        and w4: "\<forall>m' p. Save_model m' p \<notin> set as4"
        by blast
      have "Save_model m' p \<in> set (as1 @ as2 @ as3 @ as4)"
        using assms t1 t2 t3 t4 by (simp add: new_actions_def)
      then have "Save_model m' p \<in> set as3"
        using w1 w2 w4 by fastforce
      then have "m' = m2 \<and> p = sp" using w3 by blast
      then show ?thesis using la' ms' by blast
    qed
  qed
qed

text \<open>
  C10. The model that is saved is the loaded model with one attribute rebound: on every
  attribute name other than \<open>submodule_name\<close> it has what the loaded model had, and
  \<open>submodule_name\<close> is bound to the merged submodule (the result of merging the adapter
  loaded onto the submodule that the name was bound to).
\<close>

theorem merge_lora_replaces_one_attribute:
  assumes "load_model L b (files s) = Inr m"
    and "Save_model m' p \<in> set (new_actions s (snd (merge_lora L b l x n sp s)))"
  shows "p = sp
       \<and> (\<forall>a. a \<noteq> n \<longrightarrow> attrs m' a = attrs m a)
       \<and> (\<exists>base_submodule lora_model merged_submodule.
             attrs m n = Some base_submodule
           \<and> load_adapter L base_submodule l (files s) = Inr lora_model
           \<and> merge_adapter L lora_model = Inr merged_submodule
           \<and> m' = m\<lparr>attrs := (attrs m)(n \<mapsto> merged_submodule)\<rparr>)"
proof -
  obtain m0 t pr s1 s2 where la: "load_all L b s = (Inr (m0, t, pr), s1)"
    and ms: "merge_submodule L m0 l n s1 = (Inr m', s2)" and p: "p = sp"
    using merge_lora_saved_model [OF assms(2)] by blast
  have m0: "m0 = m" and f1: "files s1 = files s"
    using load_all_Inr [OF la] assms(1) by simp_all
  obtain base lora_model merged where
    at: "attrs m n = Some base" and
    ad: "load_adapter L base l (files s) = Inr lora_model" and
    mg: "merge_adapter L lora_model = Inr merged" and
    m': "m' = m\<lparr>attrs := (attrs m)(n \<mapsto> merged)\<rparr>"
    using merge_submodule_Inr [OF ms] unfolding m0 f1 by blast
  have "\<forall>a. a \<noteq> n \<longrightarrow> attrs m' a = attrs m a" unfolding m' by simp
  then show ?thesis using p at ad mg m' by blast
qed

theorem merge_lora_replaces_one_attribute_witness:
  "load_model demo_libs ''base'' (files demo_world) = Inr demo_model
   \<and> Save_model (demo_model\<lparr>attrs := (attrs demo_model)(''thinker'' \<mapsto> ''W+A!'')\<rparr>) ''out''
       \<in> set (new_actions demo_world
           (snd (merge_lora demo_libs ''base'' ''lora'' ''spk_dict.pt'' ''thinker'' ''out'' demo_world)))
   \<and> attrs (demo_model\<lparr>attrs := (attrs demo_model)(''thinker'' \<mapsto> ''W+A!'')\<rparr>) ''talker''
       = attrs demo_model ''talker''
   \<and> attrs demo_model ''talker'' = Some ''V''
   \<and> attrs (demo_model\<lparr>attrs := (attrs demo_model)(''thinker'' \<mapsto> ''W+A!'')\<rparr>) ''thinker''
       = Some ''W+A!''"
proof -
  have h1: "load_model demo_libs ''base'' (files demo_world) = Inr demo_model"
    by (simp add: demo_libs_def)
  have h2: "Save_model (demo_model\<lparr>attrs := (attrs demo_model)(''thinker'' \<mapsto> ''W+A!'')\<rparr>) ''out''
       \<in> set (new_actions demo_world
           (snd (merge_lora demo_libs ''base'' ''lora'' ''spk_dict.pt'' ''thinker'' ''out'' demo_world)))"
    unfolding demo_run by (simp add: new_actions_def demo_world_def)
  note th = merge_lora_replaces_one_attribute [OF h1 h2]
  have "attrs (demo_model\<lparr>attrs := (attrs demo_model)(''thinker'' \<mapsto> ''W+A!'')\<rparr>) ''talker''
       = attrs demo_model ''talker''"
    using th by simp
  then show ?thesis using h1 h2 by (simp add: demo_model_def)
qed

end
